theory Spec2Isabelle
  imports Complex_Main
begin

section \<open>Data model\<close>

text \<open>
  The client of the two-party chat: \<^verbatim>\<open>storage.ts\<close> (the persisted session, messages and
  room membership), \<^verbatim>\<open>signaling.ts\<close> (the relay client), \<^verbatim>\<open>webrtc.ts\<close> (negotiation,
  reconnection, session end) and the chat page (initiator election and its fallback timer).

  Every handler of the source is modelled as one atomic step on an explicit state: the
  source is event driven and single threaded, and a handler that awaits a browser
  primitive is taken together with the primitive's outcome, which the environment
  record \<open>env\<close> supplies. The calls the code makes to the outside (callbacks of the
  presentation layer, frames published on the relay, calls on the peer connection,
  timers) are appended to the log \<open>effects\<close> in the order the code makes them.
\<close>

datatype signal_type =
  Offer | Answer | IceCandidate | InitiatorSelection | EndSession | RoomFull | KeepAlive

type_synonym sdp = string
type_synonym candidate = string

text \<open>The field \<^verbatim>\<open>content: any\<close> of an envelope, by the shapes the client puts there.\<close>

datatype content =
  Description sdp
  | CandidateInit candidate
  | ElectionToken real int
  | Metadata string

record signal_message =
  msg_type :: signal_type
  msg_content :: content
  msg_roomId :: string
  msg_senderId :: string

record message_event =
  me_data :: string
  me_senderId :: string
  me_isSelf :: bool
  me_timestamp :: int

record session_data =
  s_roomId :: string
  s_userId :: string
  active :: bool
  startTime :: int

record room_participants =
  count :: nat
  users :: "string list"
  lastUpdated :: int

datatype signaling_state =
  Stable | HaveLocalOffer | HaveRemoteOffer | HaveLocalPranswer | HaveRemotePranswer
  | SignalingClosed

datatype ready_state = DcConnecting | DcOpen | DcClosing | DcClosed

datatype channel_status = StOpen | StClosed | StConnecting

text \<open>
  A peer connection is an instance (numbered in creation order) and the
  \<^verbatim>\<open>signalingState\<close> the code reads from it; a data channel is its \<^verbatim>\<open>readyState\<close>.
\<close>

record peer_connection =
  pc_id :: nat
  signalingState :: signaling_state

record data_channel =
  readyState :: ready_state

datatype timer = ReconnectTimer | FallbackTimer | KeepAliveInterval

datatype callback = RtcHandler | PageHandler

datatype promise = Resolved | Rejected

text \<open>
  The log. The callbacks of \<^verbatim>\<open>WebRTCCallbacks\<close> are logged when the code calls them
  (\<^verbatim>\<open>initialize\<close> sets them all before any handler can run); \<open>Publish\<close> is
  \<^verbatim>\<open>stompClient.publish\<close>; \<open>SetLocalDescription\<close> and \<open>SetRemoteDescription\<close> are logged
  when the browser has accepted the description, \<open>AddIceCandidate\<close> whenever the code
  calls \<^verbatim>\<open>addIceCandidate\<close>; \<open>Thrown\<close> is an exception that leaves the handler.
\<close>

datatype effect =
  OnMessageReceived message_event
  | OnChannelStatusChange channel_status
  | OnSessionEnded bool
  | OnRoomFull
  | Subscribe string
  | Publish signal_message
  | Deactivate
  | PcClose nat
  | DcClose
  | SetLocalDescription nat sdp
  | SetRemoteDescription nat sdp
  | AddIceCandidate nat candidate
  | DataChannelSend string string int
  | SetTimeout timer nat
  | Thrown

text \<open>
  What the browser answers during one handler: the clock, and whether each primitive the
  handler awaits succeeds (\<open>None\<close> or \<open>False\<close>: the promise rejects, or the call throws).
\<close>

record env =
  now :: int
  connectOk :: bool
  createOffer :: "sdp option"
  createAnswer :: "sdp option"
  setLocalDescriptionOk :: bool
  setRemoteDescriptionOk :: bool
  addIceCandidateOk :: bool
  sendOk :: bool

text \<open>
  The state of one browser tab: the fields of \<^verbatim>\<open>WebRTCService\<close>, the fields of
  \<^verbatim>\<open>SignalingService\<close> (prefixed \<open>sig_\<close>; \<open>sig_stompClient\<close> says that the client
  object is not null), \<^verbatim>\<open>localStorage\<close> under the three key families of
  \<^verbatim>\<open>storage.ts\<close> (their prefixes differ, so they never collide), the number of the next
  peer connection, and the log.
\<close>

record world =
  peerConnection :: "peer_connection option"
  dataChannel :: "data_channel option"
  rtc_roomId :: "string option"
  nickname :: "string option"
  isInitiator :: bool
  storedMessages :: "message_event list"
  isReconnecting :: bool
  reconnectAttempts :: nat
  isSessionActive :: bool
  pendingIceCandidates :: "candidate list"
  remoteDescriptionSet :: bool
  sig_stompClient :: bool
  sig_connected :: bool
  sig_messageCallback :: "callback option"
  sig_roomId :: "string option"
  sig_userId :: "string option"
  session :: "session_data option"
  messages :: "string \<rightharpoonup> message_event list"
  participants :: "string \<rightharpoonup> room_participants"
  nextPc :: nat
  effects :: "effect list"

text \<open>
  The chat page's closure: the random value drawn for the election, the local variable
  \<^verbatim>\<open>actualInitiator\<close>, and the value of \<^verbatim>\<open>connectionStatus\<close> that the closure of
  \<^verbatim>\<open>initializeChat\<close> holds.
\<close>

record page =
  randomValue :: real
  actualInitiator :: bool
  connectionStatus :: channel_status

section \<open>Helpers\<close>

text \<open>JavaScript truthiness of a \<^verbatim>\<open>string | null\<close>: neither null nor empty.\<close>

definition truthy :: "string option \<Rightarrow> bool" where
  "truthy s = (case s of None \<Rightarrow> False | Some v \<Rightarrow> v \<noteq> [])"

definition emit :: "effect \<Rightarrow> world \<Rightarrow> world" where
  "emit e w = w\<lparr>effects := effects w @ [e]\<rparr>"

section \<open>storage.ts\<close>

definition saveSession :: "string \<Rightarrow> string \<Rightarrow> int \<Rightarrow> world \<Rightarrow> world" where
  "saveSession roomId userId t w =
     w\<lparr>session := Some \<lparr>s_roomId = roomId, s_userId = userId, active = True, startTime = t\<rparr>\<rparr>"

definition clearSession :: "world \<Rightarrow> world" where
  "clearSession w = w\<lparr>session := None\<rparr>"

definition saveMessages :: "string \<Rightarrow> message_event list \<Rightarrow> world \<Rightarrow> world" where
  "saveMessages roomId ms w = w\<lparr>messages := (messages w)(roomId \<mapsto> ms)\<rparr>"

definition getMessages :: "string \<Rightarrow> world \<Rightarrow> message_event list" where
  "getMessages roomId w = (case messages w roomId of None \<Rightarrow> [] | Some ms \<Rightarrow> ms)"

definition clearMessages :: "string \<Rightarrow> world \<Rightarrow> world" where
  "clearMessages roomId w = w\<lparr>messages := (messages w)(roomId := None)\<rparr>"

definition clearRoomParticipants :: "string \<Rightarrow> world \<Rightarrow> world" where
  "clearRoomParticipants roomId w = w\<lparr>participants := (participants w)(roomId := None)\<rparr>"

text \<open>
  \<^verbatim>\<open>updateRoomParticipants\<close> in three steps: the entry read from storage (a fresh one
  when the key is absent), the join or leave applied to it, and the entry written back
  with the count returned. The values the client stores are the ones it wrote itself, so
  the branches for unparsable JSON are left out.
\<close>

definition joinOrLeave :: "string \<Rightarrow> bool \<Rightarrow> room_participants \<Rightarrow> room_participants" where
  "joinOrLeave userId joining p =
     (if joining then
        (if userId \<notin> set (users p)
         then p\<lparr>count := count p + 1, users := users p @ [userId]\<rparr>
         else p)
      else p\<lparr>users := filter (\<lambda>i. i \<noteq> userId) (users p),
             count := length (filter (\<lambda>i. i \<noteq> userId) (users p))\<rparr>)"

definition storedParticipants :: "string \<Rightarrow> int \<Rightarrow> world \<Rightarrow> room_participants" where
  "storedParticipants roomId t w =
     (case participants w roomId of
        None \<Rightarrow> \<lparr>count = 0, users = [], lastUpdated = t\<rparr>
      | Some p \<Rightarrow> p)"

definition updateRoomParticipants ::
  "string \<Rightarrow> string \<Rightarrow> bool \<Rightarrow> int \<Rightarrow> world \<Rightarrow> nat \<times> world" where
  "updateRoomParticipants roomId userId joining t w =
     (count (joinOrLeave userId joining (storedParticipants roomId t w)),
      w\<lparr>participants := (participants w)
           (roomId \<mapsto> (joinOrLeave userId joining (storedParticipants roomId t w))
                          \<lparr>lastUpdated := t\<rparr>)\<rparr>)"

section \<open>signaling.ts\<close>

definition isConnected :: "world \<Rightarrow> bool" where
  "isConnected w = (sig_connected w \<and> sig_stompClient w)"

definition sendSignalMessage :: "signal_type \<Rightarrow> content \<Rightarrow> world \<Rightarrow> world" where
  "sendSignalMessage ty c w =
     (if \<not> sig_connected w \<or> \<not> sig_stompClient w \<or> \<not> truthy (sig_roomId w)
         \<or> \<not> truthy (sig_userId w)
      then w
      else (case (sig_roomId w, sig_userId w) of
              (Some r, Some u) \<Rightarrow>
                emit (Publish \<lparr>msg_type = ty, msg_content = c, msg_roomId = r,
                               msg_senderId = u\<rparr>) w
            | _ \<Rightarrow> w))"

definition sendKeepAlive :: "world \<Rightarrow> world" where
  "sendKeepAlive w =
     (case session w of
        None \<Rightarrow> w
      | Some s \<Rightarrow>
          (if active s \<and> sig_connected w \<and> truthy (sig_roomId w)
           then sendSignalMessage KeepAlive (Metadata ''timestamp'') w
           else w))"

text \<open>The body of \<^verbatim>\<open>stompClient.onConnect\<close>, up to \<^verbatim>\<open>resolve()\<close>.\<close>

definition onConnect :: "string \<Rightarrow> string \<Rightarrow> env \<Rightarrow> world \<Rightarrow> world" where
  "onConnect roomId userId e w =
     (case updateRoomParticipants roomId userId True (now e)
             (emit (Subscribe (case sig_roomId w of None \<Rightarrow> ''null'' | Some r \<Rightarrow> r))
                (w\<lparr>sig_connected := True\<rparr>)) of
        (participantCount, w1) \<Rightarrow>
          (if participantCount > 2
           then sendSignalMessage RoomFull
                  (Metadata ''Room is already full with 2 participants'') w1
           else emit (SetTimeout KeepAliveInterval 30000) (sendKeepAlive w1)))"

definition connect :: "string \<Rightarrow> string \<Rightarrow> env \<Rightarrow> world \<Rightarrow> promise \<times> world" where
  "connect roomId userId e w =
     (if sig_connected w then (Resolved, w)
      else if connectOk e
      then (Resolved,
            onConnect roomId userId e
              (w\<lparr>sig_roomId := Some roomId, sig_userId := Some userId,
                 sig_stompClient := True\<rparr>))
      else (Rejected,
            w\<lparr>sig_roomId := Some roomId, sig_userId := Some userId,
              sig_stompClient := True\<rparr>))"

definition onSignalMessage :: "callback \<Rightarrow> world \<Rightarrow> world" where
  "onSignalMessage cb w = w\<lparr>sig_messageCallback := Some cb\<rparr>"

definition signaling_endSession :: "world \<Rightarrow> world" where
  "signaling_endSession w =
     (if sig_connected w \<and> truthy (sig_roomId w)
      then sendSignalMessage EndSession (Metadata ''Session ended by peer'') w
      else w)"

definition disconnect :: "env \<Rightarrow> world \<Rightarrow> world" where
  "disconnect e w =
     (let w1 = (case (sig_roomId w, sig_userId w) of
                  (Some r, Some u) \<Rightarrow>
                    (if r \<noteq> [] \<and> u \<noteq> []
                     then snd (updateRoomParticipants r u False (now e) w)
                     else w)
                | _ \<Rightarrow> w)
      in if sig_stompClient w1
         then (emit Deactivate w1)
                \<lparr>sig_connected := False, sig_roomId := None, sig_userId := None\<rparr>
         else w1)"

text \<open>
  The subscription callback decides whether an envelope received on the room topic is
  handed to the registered \<^verbatim>\<open>messageCallback\<close>.
\<close>

definition forwards :: "signal_message \<Rightarrow> world \<Rightarrow> bool" where
  "forwards m w =
     (if sig_messageCallback w = None then False
      else if msg_type m = EndSession then Some (msg_senderId m) \<noteq> sig_userId w
      else if msg_type m = RoomFull then True
      else Some (msg_senderId m) \<noteq> sig_userId w)"

section \<open>webrtc.ts\<close>

definition maxReconnectAttempts :: nat where
  "maxReconnectAttempts = 5"

definition reconnectionDelay :: nat where
  "reconnectionDelay = 1000"

definition loadStoredMessages :: "world \<Rightarrow> world" where
  "loadStoredMessages w =
     (case rtc_roomId w of
        None \<Rightarrow> w
      | Some r \<Rightarrow>
          (if r \<noteq> [] \<and> getMessages r w \<noteq> []
           then w\<lparr>storedMessages := getMessages r w\<rparr>
           else w))"

definition persistMessages :: "world \<Rightarrow> world" where
  "persistMessages w =
     (case rtc_roomId w of
        None \<Rightarrow> w
      | Some r \<Rightarrow> (if r \<noteq> [] then saveMessages r (storedMessages w) w else w))"

definition createPeerConnection :: "world \<Rightarrow> world" where
  "createPeerConnection w =
     w\<lparr>peerConnection := Some \<lparr>pc_id = nextPc w, signalingState = Stable\<rparr>,
       nextPc := nextPc w + 1\<rparr>"

definition createPeerConnectionAsReceiver :: "world \<Rightarrow> world" where
  "createPeerConnectionAsReceiver w = createPeerConnection (w\<lparr>isInitiator := False\<rparr>)"

text \<open>
  \<^verbatim>\<open>if (this.peerConnection) { this.peerConnection.close(); this.peerConnection = null; }\<close>
  and the same for the data channel.
\<close>

definition closePeerConnection :: "world \<Rightarrow> world" where
  "closePeerConnection w =
     (case peerConnection w of
        None \<Rightarrow> w
      | Some pc \<Rightarrow> (emit (PcClose (pc_id pc)) w)\<lparr>peerConnection := None\<rparr>)"

definition closeDataChannel :: "world \<Rightarrow> world" where
  "closeDataChannel w =
     (case dataChannel w of
        None \<Rightarrow> w
      | Some dc \<Rightarrow> (emit DcClose w)\<lparr>dataChannel := None\<rparr>)"

definition setupDataChannel :: "world \<Rightarrow> world" where
  "setupDataChannel w =
     (case peerConnection w of
        None \<Rightarrow> w
      | Some pc \<Rightarrow> w\<lparr>dataChannel := Some \<lparr>readyState = DcConnecting\<rparr>\<rparr>)"

text \<open>
  The tail of \<^verbatim>\<open>createPeerConnectionAsInitiator\<close>: create the offer, apply it locally,
  publish it. A rejected primitive is caught and logged by the source.
\<close>

definition sendOffer :: "env \<Rightarrow> world \<Rightarrow> world" where
  "sendOffer e w =
     (case (peerConnection w, createOffer e) of
        (Some pc, Some offer) \<Rightarrow>
          (if setLocalDescriptionOk e
           then sendSignalMessage Offer (Description offer)
                  ((emit (SetLocalDescription (pc_id pc) offer) w)
                     \<lparr>peerConnection := Some (pc\<lparr>signalingState := HaveLocalOffer\<rparr>)\<rparr>)
           else w)
      | _ \<Rightarrow> w)"

definition createPeerConnectionAsInitiator :: "env \<Rightarrow> world \<Rightarrow> world" where
  "createPeerConnectionAsInitiator e w =
     (let w1 = setupDataChannel (createPeerConnection
                 ((closePeerConnection w)
                    \<lparr>isInitiator := True, remoteDescriptionSet := False,
                     pendingIceCandidates := []\<rparr>))
      in if \<not> isConnected w1
         then (case (rtc_roomId w1, nickname w1) of
                 (Some r, Some n) \<Rightarrow>
                   (if r \<noteq> [] \<and> n \<noteq> []
                    then (case connect r n e w1 of
                            (Resolved, w2) \<Rightarrow> sendOffer e w2
                          | (Rejected, w2) \<Rightarrow> w2)
                    else w1)
               | _ \<Rightarrow> w1)
         else sendOffer e w1)"

definition cleanup :: "env \<Rightarrow> world \<Rightarrow> world" where
  "cleanup e w =
     disconnect e
       (closePeerConnection
          (closeDataChannel
             (w\<lparr>remoteDescriptionSet := False, pendingIceCandidates := [],
                storedMessages := [], reconnectAttempts := 0, isReconnecting := False\<rparr>)))"

definition senderName :: "world \<Rightarrow> string" where
  "senderName w =
     (case nickname w of None \<Rightarrow> ''Unknown'' | Some n \<Rightarrow> (if n = [] then ''Unknown'' else n))"

definition sendMessage :: "string \<Rightarrow> env \<Rightarrow> world \<Rightarrow> world" where
  "sendMessage message e w =
     (case dataChannel w of
        None \<Rightarrow> w
      | Some dc \<Rightarrow>
          (if readyState dc \<noteq> DcOpen then w
           else if \<not> sendOk e then w
           else emit (OnMessageReceived
                        \<lparr>me_data = message, me_senderId = senderName w, me_isSelf = True,
                         me_timestamp = now e\<rparr>)
                  (persistMessages
                     ((emit (DataChannelSend message (senderName w) (now e)) w)
                        \<lparr>storedMessages := storedMessages w @
                           [\<lparr>me_data = message, me_senderId = senderName w, me_isSelf = True,
                             me_timestamp = now e\<rparr>]\<rparr>))))"

definition handleDisconnection :: "world \<Rightarrow> world" where
  "handleDisconnection w =
     (if \<not> isSessionActive w then w
      else if reconnectAttempts w < maxReconnectAttempts
      then emit (SetTimeout ReconnectTimer reconnectionDelay)
             (closePeerConnection (w\<lparr>reconnectAttempts := reconnectAttempts w + 1\<rparr>))
      else emit (OnChannelStatusChange StClosed) (w\<lparr>isReconnecting := False\<rparr>))"

text \<open>The callback that \<^verbatim>\<open>handleDisconnection\<close> hands to \<^verbatim>\<open>setTimeout\<close>.\<close>

definition reconnectTimerFired :: "env \<Rightarrow> world \<Rightarrow> world" where
  "reconnectTimerFired e w =
     (if isInitiator w then createPeerConnectionAsInitiator e w
      else createPeerConnectionAsReceiver w)"

definition attemptReconnection :: "world \<Rightarrow> world" where
  "attemptReconnection w =
     (if isReconnecting w \<or> \<not> isSessionActive w then w
      else handleDisconnection (w\<lparr>isReconnecting := True, reconnectAttempts := 0\<rparr>))"

definition dataChannelOnOpen :: "world \<Rightarrow> world" where
  "dataChannelOnOpen w =
     emit (OnChannelStatusChange StOpen) (w\<lparr>reconnectAttempts := 0, isReconnecting := False\<rparr>)"

definition dataChannelOnClose :: "world \<Rightarrow> world" where
  "dataChannelOnClose w =
     (let w1 = emit (OnChannelStatusChange StClosed) w
      in if \<not> isReconnecting w1 \<and> isSessionActive w1 then attemptReconnection w1 else w1)"

definition processPendingIceCandidates :: "world \<Rightarrow> world" where
  "processPendingIceCandidates w =
     (case peerConnection w of
        None \<Rightarrow> w
      | Some pc \<Rightarrow>
          (if \<not> remoteDescriptionSet w \<or> pendingIceCandidates w = [] then w
           else w\<lparr>effects := effects w @ map (AddIceCandidate (pc_id pc)) (pendingIceCandidates w),
                  pendingIceCandidates := []\<rparr>))"

text \<open>
  Both ways of ending a session clear the messages and the membership stored for the
  current room.
\<close>

definition clearRoomData :: "world \<Rightarrow> world" where
  "clearRoomData w =
     (case rtc_roomId w of
        None \<Rightarrow> w
      | Some r \<Rightarrow> (if r \<noteq> [] then clearRoomParticipants r (clearMessages r w) else w))"

text \<open>The \<^verbatim>\<open>end-session\<close> branch of \<^verbatim>\<open>handleSignalingMessage\<close>.\<close>

definition handleEndSession :: "env \<Rightarrow> world \<Rightarrow> world" where
  "handleEndSession e w =
     cleanup e
       (emit (OnSessionEnded True)
          (clearSession (clearRoomData (w\<lparr>isSessionActive := False\<rparr>))))"

text \<open>
  The \<^verbatim>\<open>offer\<close> case. A peer connection that is not \<^verbatim>\<open>stable\<close> is closed and replaced
  first; then the remote description is set, the buffer flushed and the answer made.
\<close>

definition resetForOffer :: "world \<Rightarrow> world" where
  "resetForOffer w =
     (case peerConnection w of
        None \<Rightarrow> w
      | Some pc \<Rightarrow>
          (if signalingState pc \<noteq> Stable
           then (createPeerConnectionAsReceiver (closePeerConnection w))
                  \<lparr>remoteDescriptionSet := False, pendingIceCandidates := []\<rparr>
           else w))"

text \<open>
  The rest of the \<^verbatim>\<open>offer\<close> case after the flush: create the answer, apply it locally,
  publish it if the relay client is connected. A rejected primitive lands in the
  \<^verbatim>\<open>catch\<close>, which clears \<^verbatim>\<open>remoteDescriptionSet\<close>.
\<close>

definition sendAnswer :: "env \<Rightarrow> world \<Rightarrow> world" where
  "sendAnswer e w =
     (case (peerConnection w, createAnswer e) of
        (Some pc, Some answer) \<Rightarrow>
          (if setLocalDescriptionOk e
           then (let w1 = (emit (SetLocalDescription (pc_id pc) answer) w)
                            \<lparr>peerConnection := Some (pc\<lparr>signalingState := Stable\<rparr>)\<rparr>
                 in if isConnected w1 then sendSignalMessage Answer (Description answer) w1
                    else w1)
           else w\<lparr>remoteDescriptionSet := False\<rparr>)
      | _ \<Rightarrow> w\<lparr>remoteDescriptionSet := False\<rparr>)"

text \<open>
  A successful \<^verbatim>\<open>setRemoteDescription\<close> followed by \<^verbatim>\<open>remoteDescriptionSet = true\<close>;
  \<open>st\<close> is the signalling state the browser moves to.
\<close>

definition setRemote :: "signaling_state \<Rightarrow> sdp \<Rightarrow> world \<Rightarrow> world" where
  "setRemote st d w =
     (case peerConnection w of
        None \<Rightarrow> w
      | Some pc \<Rightarrow>
          (emit (SetRemoteDescription (pc_id pc) d) w)
            \<lparr>peerConnection := Some (pc\<lparr>signalingState := st\<rparr>),
             remoteDescriptionSet := True\<rparr>)"

definition handleOffer :: "env \<Rightarrow> content \<Rightarrow> world \<Rightarrow> world" where
  "handleOffer e c w =
     (case c of
        Description d \<Rightarrow>
          (if setRemoteDescriptionOk e
           then sendAnswer e
                  (processPendingIceCandidates (setRemote HaveRemoteOffer d (resetForOffer w)))
           else (resetForOffer w)\<lparr>remoteDescriptionSet := False\<rparr>)
      | _ \<Rightarrow> (resetForOffer w)\<lparr>remoteDescriptionSet := False\<rparr>)"

definition handleAnswer :: "env \<Rightarrow> content \<Rightarrow> world \<Rightarrow> world" where
  "handleAnswer e c w =
     (case peerConnection w of
        None \<Rightarrow> w
      | Some pc \<Rightarrow>
          (if signalingState pc \<noteq> HaveLocalOffer then w
           else (case c of
                   Description d \<Rightarrow>
                     (if setRemoteDescriptionOk e
                      then processPendingIceCandidates (setRemote Stable d w)
                      else w\<lparr>remoteDescriptionSet := False\<rparr>)
                 | _ \<Rightarrow> w\<lparr>remoteDescriptionSet := False\<rparr>)))"

text \<open>
  The \<^verbatim>\<open>ice-candidate\<close> case. A content that is no candidate makes the constructor
  throw, in the \<^verbatim>\<open>try\<close> and again in the \<^verbatim>\<open>catch\<close>.
\<close>

definition handleIceCandidate :: "env \<Rightarrow> content \<Rightarrow> world \<Rightarrow> world" where
  "handleIceCandidate e c w =
     (case c of
        CandidateInit cand \<Rightarrow>
          (if \<not> remoteDescriptionSet w
           then w\<lparr>pendingIceCandidates := pendingIceCandidates w @ [cand]\<rparr>
           else (case peerConnection w of
                   None \<Rightarrow> w
                 | Some pc \<Rightarrow>
                     (if addIceCandidateOk e
                      then emit (AddIceCandidate (pc_id pc) cand) w
                      else (emit (AddIceCandidate (pc_id pc) cand) w)
                             \<lparr>pendingIceCandidates := pendingIceCandidates w @ [cand]\<rparr>)))
      | _ \<Rightarrow> emit Thrown w)"

text \<open>The guard \<^verbatim>\<open>if (!this.peerConnection)\<close> before the \<^verbatim>\<open>switch\<close>.\<close>

definition ensurePeerConnection :: "world \<Rightarrow> world" where
  "ensurePeerConnection w =
     (if peerConnection w = None then createPeerConnectionAsReceiver w else w)"

definition handleSignalingMessage :: "env \<Rightarrow> signal_message \<Rightarrow> world \<Rightarrow> world" where
  "handleSignalingMessage e m w =
     (if msg_type m = EndSession then handleEndSession e w
      else if msg_type m = RoomFull then emit OnRoomFull w
      else if msg_type m = Offer then handleOffer e (msg_content m) (ensurePeerConnection w)
      else if msg_type m = Answer then handleAnswer e (msg_content m) (ensurePeerConnection w)
      else if msg_type m = IceCandidate
      then handleIceCandidate e (msg_content m) (ensurePeerConnection w)
      else ensurePeerConnection w)"

definition storage_endSession :: "world \<Rightarrow> world" where
  "storage_endSession w =
     (case session w of
        None \<Rightarrow> w
      | Some s \<Rightarrow> clearRoomParticipants (s_roomId s) (w\<lparr>session := Some (s\<lparr>active := False\<rparr>)\<rparr>))"

definition rtc_endSession :: "env \<Rightarrow> world \<Rightarrow> world" where
  "rtc_endSession e w =
     cleanup e
       (emit (OnSessionEnded False)
          (clearSession
             (clearRoomData
                (storage_endSession
                   ((if isConnected w then signaling_endSession w else w)
                      \<lparr>isSessionActive := False\<rparr>)))))"

text \<open>The statements of \<^verbatim>\<open>initialize\<close> before its \<^verbatim>\<open>try\<close> block.\<close>

definition beforeConnect :: "string \<Rightarrow> string \<Rightarrow> env \<Rightarrow> world \<Rightarrow> world" where
  "beforeConnect roomId nick e w =
     (let w1 = (cleanup e (w\<lparr>rtc_roomId := Some roomId, nickname := Some nick,
                              isSessionActive := True\<rparr>))
                 \<lparr>remoteDescriptionSet := False, pendingIceCandidates := [],
                  isInitiator := False\<rparr>;
          w2 = saveSession roomId nick (now e) w1;
          w3 = (if nick \<noteq> [] then snd (updateRoomParticipants roomId nick True (now e) w2)
                else w2);
          w4 = loadStoredMessages w3
      in w4\<lparr>effects := effects w4 @ map OnMessageReceived (storedMessages w4)\<rparr>)"

definition initialize :: "string \<Rightarrow> string \<Rightarrow> env \<Rightarrow> world \<Rightarrow> promise \<times> world" where
  "initialize roomId nick e w =
     (case connect roomId nick e (beforeConnect roomId nick e w) of
        (Resolved, w6) \<Rightarrow>
          (Resolved, onSignalMessage RtcHandler (createPeerConnectionAsReceiver w6))
      | (Rejected, w6) \<Rightarrow> (Rejected, w6))"

section \<open>The chat page\<close>

text \<open>
  The condition of the \<^verbatim>\<open>initiator-selection\<close> branch: \<open>ourTimestamp\<close> is
  \<^verbatim>\<open>Date.now()\<close> read when the peer's token is handled.
\<close>

definition electsInitiator :: "real \<Rightarrow> int \<Rightarrow> real \<Rightarrow> int \<Rightarrow> bool" where
  "electsInitiator ourValue ourTimestamp theirValue theirTimestamp =
     (ourValue > theirValue \<or> (ourValue = theirValue \<and> ourTimestamp < theirTimestamp))"

text \<open>The handler that the page registers with \<^verbatim>\<open>signalingService.onSignalMessage\<close>.\<close>

definition pageOnSignalMessage ::
  "env \<Rightarrow> signal_message \<Rightarrow> page \<times> world \<Rightarrow> page \<times> world" where
  "pageOnSignalMessage e m pw =
     (case pw of (p, w) \<Rightarrow>
        (if msg_type m = InitiatorSelection
         then (case msg_content m of
                 ElectionToken theirValue theirTimestamp \<Rightarrow>
                   (if electsInitiator (randomValue p) (now e) theirValue theirTimestamp
                    then (p\<lparr>actualInitiator := True\<rparr>, createPeerConnectionAsInitiator e w)
                    else (p\<lparr>actualInitiator := False\<rparr>, createPeerConnectionAsReceiver w))
               | _ \<Rightarrow> (p\<lparr>actualInitiator := False\<rparr>, createPeerConnectionAsReceiver w))
         else (p, handleSignalingMessage e m w)))"

text \<open>The callback of the 3000 ms timer.\<close>

definition fallbackTimerFired :: "env \<Rightarrow> page \<times> world \<Rightarrow> page \<times> world" where
  "fallbackTimerFired e pw =
     (case pw of (p, w) \<Rightarrow>
        (if \<not> actualInitiator p \<and> connectionStatus p \<noteq> StOpen
         then (p\<lparr>actualInitiator := True\<rparr>, createPeerConnectionAsInitiator e w)
         else (p, w)))"

definition initializeChat ::
  "string \<Rightarrow> string \<Rightarrow> env \<Rightarrow> page \<times> world \<Rightarrow> page \<times> world" where
  "initializeChat roomId nick e pw =
     (case pw of (p, w) \<Rightarrow>
        (case initialize roomId nick e w of
           (Resolved, w1) \<Rightarrow>
             (p\<lparr>actualInitiator := False\<rparr>,
              emit (SetTimeout FallbackTimer 3000)
                (onSignalMessage PageHandler
                   (sendSignalMessage InitiatorSelection
                      (ElectionToken (randomValue p) (now e)) w1)))
         | (Rejected, w1) \<Rightarrow> (p\<lparr>actualInitiator := False\<rparr>, w1)))"

text \<open>
  An envelope arriving on the room subscription: the subscription callback of
  \<^verbatim>\<open>signaling.ts\<close> filters it and calls whichever handler is registered.
\<close>

definition onStompMessage ::
  "env \<Rightarrow> signal_message \<Rightarrow> page \<times> world \<Rightarrow> page \<times> world" where
  "onStompMessage e m pw =
     (case pw of (p, w) \<Rightarrow>
        (if forwards m w
         then (case sig_messageCallback w of
                 Some PageHandler \<Rightarrow> pageOnSignalMessage e m (p, w)
               | Some RtcHandler \<Rightarrow> (p, handleSignalingMessage e m w)
               | None \<Rightarrow> (p, w))
         else (p, w)))"

section \<open>Observations on the log\<close>

text \<open>
  What an observer outside the tab sees of a run, read off the log in order: the
  candidates handed to \<^verbatim>\<open>addIceCandidate\<close> (with the peer connection they were given
  to), the envelopes published on the relay, the channel statuses and session ends
  reported to the presentation layer, and the reconnection timers set.
\<close>

fun candidateOf :: "effect \<Rightarrow> (nat \<times> candidate) list" where
  "candidateOf (AddIceCandidate i c) = [(i, c)]"
| "candidateOf _ = []"

fun envelopeOf :: "effect \<Rightarrow> signal_message list" where
  "envelopeOf (Publish m) = [m]"
| "envelopeOf _ = []"

fun statusOf :: "effect \<Rightarrow> channel_status list" where
  "statusOf (OnChannelStatusChange s) = [s]"
| "statusOf _ = []"

fun sessionEndOf :: "effect \<Rightarrow> bool list" where
  "sessionEndOf (OnSessionEnded b) = [b]"
| "sessionEndOf _ = []"

fun reconnectTimerOf :: "effect \<Rightarrow> nat list" where
  "reconnectTimerOf (SetTimeout ReconnectTimer d) = [d]"
| "reconnectTimerOf _ = []"


definition appliedCandidates :: "world \<Rightarrow> (nat \<times> candidate) list" where
  "appliedCandidates w = concat (map candidateOf (effects w))"

definition published :: "world \<Rightarrow> signal_message list" where
  "published w = concat (map envelopeOf (effects w))"

definition electionTokensSent :: "world \<Rightarrow> nat" where
  "electionTokensSent w =
     length (filter (\<lambda>m. msg_type m = InitiatorSelection) (published w))"

definition statusReports :: "world \<Rightarrow> channel_status list" where
  "statusReports w = concat (map statusOf (effects w))"

definition sessionEndReports :: "world \<Rightarrow> bool list" where
  "sessionEndReports w = concat (map sessionEndOf (effects w))"

definition reconnectTimers :: "world \<Rightarrow> nat list" where
  "reconnectTimers w = concat (map reconnectTimerOf (effects w))"



section \<open>Repeated loss of the transport\<close>


section \<open>Concrete states\<close>

text \<open>
  The two singletons as the module creates them, before \<^verbatim>\<open>initialize\<close>, over an empty
  \<^verbatim>\<open>localStorage\<close>; and an environment in which every primitive succeeds at time \<open>t\<close>.
\<close>

definition initialWorld :: world where
  "initialWorld =
     \<lparr>peerConnection = None, dataChannel = None, rtc_roomId = None, nickname = None,
      isInitiator = False, storedMessages = [], isReconnecting = False,
      reconnectAttempts = 0, isSessionActive = False, pendingIceCandidates = [],
      remoteDescriptionSet = False, sig_stompClient = False, sig_connected = False,
      sig_messageCallback = None, sig_roomId = None, sig_userId = None, session = None,
      messages = Map.empty, participants = Map.empty, nextPc = 0, effects = []\<rparr>"

definition allOk :: "int \<Rightarrow> env" where
  "allOk t =
     \<lparr>now = t, connectOk = True, createOffer = Some ''offer-sdp'',
      createAnswer = Some ''answer-sdp'', setLocalDescriptionOk = True,
      setRemoteDescriptionOk = True, addIceCandidateOk = True, sendOk = True\<rparr>"

definition envelope :: "signal_type \<Rightarrow> content \<Rightarrow> string \<Rightarrow> signal_message" where
  "envelope ty c sender =
     \<lparr>msg_type = ty, msg_content = c, msg_roomId = ''r1'', msg_senderId = sender\<rparr>"

text \<open>
  A tab in room \<open>r1\<close> as \<open>bob\<close>, connected to the relay with the page's handler
  registered, that has sent an offer of its own.
\<close>

definition offerSent :: world where
  "offerSent =
     initialWorld
       \<lparr>peerConnection := Some \<lparr>pc_id = 0, signalingState = HaveLocalOffer\<rparr>,
        dataChannel := Some \<lparr>readyState = DcConnecting\<rparr>,
        rtc_roomId := Some ''r1'', nickname := Some ''bob'', isInitiator := True,
        isSessionActive := True,
        sig_stompClient := True, sig_connected := True,
        sig_messageCallback := Some PageHandler, sig_roomId := Some ''r1'',
        sig_userId := Some ''bob'', nextPc := 1\<rparr>"

definition page0 :: page where
  "page0 = \<lparr>randomValue = 0.3, actualInitiator = True, connectionStatus = StConnecting\<rparr>"

text \<open>That tab after a candidate of the peer has arrived.\<close>

definition candidateBuffered :: world where
  "candidateBuffered =
     snd (onStompMessage (allOk 1) (envelope IceCandidate (CandidateInit ''c1'') ''alice'')
            (page0, offerSent))"

text \<open>That tab after its transport was lost: the reconnection timer is pending.\<close>

definition reconnecting :: world where
  "reconnecting = handleDisconnection offerSent"

text \<open>That tab after the peer has ended the session.\<close>

definition endSessionEnvelope :: signal_message where
  "endSessionEnvelope = envelope EndSession (Metadata ''Session ended by peer'') ''alice''"

definition endedByPeer :: world where
  "endedByPeer = snd (onStompMessage (allOk 200) endSessionEnvelope (page0, offerSent))"

text \<open>
  A third participant, \<open>carol\<close>, opens room \<open>r1\<close> in a browser whose storage already
  counts \<open>alice\<close> and \<open>bob\<close> there; then \<open>alice\<close>'s election token reaches her.
\<close>

definition roomOfTwo :: world where
  "roomOfTwo =
     initialWorld\<lparr>participants :=
       [''r1'' \<mapsto> \<lparr>count = 2, users = [''alice'', ''bob''], lastUpdated = 0\<rparr>]\<rparr>"

definition carolJoined :: "page \<times> world" where
  "carolJoined =
     initializeChat ''r1'' ''carol'' (allOk 100)
       (\<lparr>randomValue = 0.9, actualInitiator = False, connectionStatus = StConnecting\<rparr>,
        roomOfTwo)"

definition carolElected :: "page \<times> world" where
  "carolElected =
     onStompMessage (allOk 105) (envelope InitiatorSelection (ElectionToken 0.2 50) ''alice'')
       carolJoined"

text \<open>
  The scenario of the specification: \<open>alice\<close> (token 0.7, sent at 100) and \<open>bob\<close>
  (token 0.3, sent at 90) join room \<open>r1\<close> from two browsers, and each handles the other's
  token at time 105.
\<close>

definition aliceJoined :: "page \<times> world" where
  "aliceJoined =
     initializeChat ''r1'' ''alice'' (allOk 100)
       (\<lparr>randomValue = 0.7, actualInitiator = False, connectionStatus = StConnecting\<rparr>,
        initialWorld)"

definition bobJoined :: "page \<times> world" where
  "bobJoined =
     initializeChat ''r1'' ''bob'' (allOk 90)
       (\<lparr>randomValue = 0.3, actualInitiator = False, connectionStatus = StConnecting\<rparr>,
        initialWorld)"

definition aliceElected :: "page \<times> world" where
  "aliceElected =
     onStompMessage (allOk 105) (envelope InitiatorSelection (ElectionToken 0.3 90) ''bob'')
       aliceJoined"

definition bobElected :: "page \<times> world" where
  "bobElected =
     onStompMessage (allOk 105) (envelope InitiatorSelection (ElectionToken 0.7 100) ''alice'')
       bobJoined"

text \<open>The same with equal random values 0.5 on both sides.\<close>

definition aliceTie :: "page \<times> world" where
  "aliceTie =
     onStompMessage (allOk 105) (envelope InitiatorSelection (ElectionToken 0.5 90) ''bob'')
       (initializeChat ''r1'' ''alice'' (allOk 100)
          (\<lparr>randomValue = 0.5, actualInitiator = False, connectionStatus = StConnecting\<rparr>,
           initialWorld))"

definition bobTie :: "page \<times> world" where
  "bobTie =
     onStompMessage (allOk 105) (envelope InitiatorSelection (ElectionToken 0.5 100) ''alice'')
       (initializeChat ''r1'' ''bob'' (allOk 90)
          (\<lparr>randomValue = 0.5, actualInitiator = False, connectionStatus = StConnecting\<rparr>,
           initialWorld))"


definition initiatorReconnected :: world where
  "initiatorReconnected = reconnectTimerFired (allOk 1200) (handleDisconnection candidateBuffered)"

definition rejecting :: "int \<Rightarrow> env" where
  "rejecting t = (allOk t)\<lparr>addIceCandidateOk := False\<rparr>"

definition bobAnswered :: world where
  "bobAnswered =
     snd (onStompMessage (allOk 110) (envelope Offer (Description ''offer-sdp'') ''alice'')
            bobElected)"

definition bobReconnected :: world where
  "bobReconnected = reconnectTimerFired (allOk 1200) (handleDisconnection bobAnswered)"

definition candidateRejected :: world where
  "candidateRejected =
     handleSignalingMessage (rejecting 1300)
       (envelope IceCandidate (CandidateInit ''c9'') ''alice'') bobReconnected"

section \<open>Unfolding the model\<close>

lemmas model_defs =
  truthy_def emit_def saveSession_def clearSession_def saveMessages_def getMessages_def
  clearMessages_def clearRoomParticipants_def joinOrLeave_def storedParticipants_def
  updateRoomParticipants_def isConnected_def sendSignalMessage_def sendKeepAlive_def
  onConnect_def connect_def onSignalMessage_def signaling_endSession_def disconnect_def
  forwards_def maxReconnectAttempts_def reconnectionDelay_def loadStoredMessages_def
  persistMessages_def createPeerConnection_def createPeerConnectionAsReceiver_def
  closePeerConnection_def closeDataChannel_def setupDataChannel_def sendOffer_def
  createPeerConnectionAsInitiator_def cleanup_def senderName_def sendMessage_def
  handleDisconnection_def reconnectTimerFired_def attemptReconnection_def
  dataChannelOnOpen_def dataChannelOnClose_def processPendingIceCandidates_def
  clearRoomData_def handleEndSession_def resetForOffer_def sendAnswer_def setRemote_def
  handleOffer_def handleAnswer_def handleIceCandidate_def ensurePeerConnection_def
  handleSignalingMessage_def storage_endSession_def rtc_endSession_def beforeConnect_def
  initialize_def electsInitiator_def pageOnSignalMessage_def fallbackTimerFired_def
  initializeChat_def onStompMessage_def

lemmas state_defs =
  initialWorld_def allOk_def envelope_def offerSent_def page0_def candidateBuffered_def
  reconnecting_def endSessionEnvelope_def endedByPeer_def roomOfTwo_def carolJoined_def
  carolElected_def aliceJoined_def bobJoined_def aliceElected_def bobElected_def
  aliceTie_def bobTie_def

lemmas obs_defs =
  appliedCandidates_def published_def electionTokensSent_def statusReports_def
  sessionEndReports_def reconnectTimers_def

lemma published_emit [simp]: "published (emit x w) = published w @ envelopeOf x"
  by (simp add: published_def emit_def)

lemma candidateBuffered_eq: "candidateBuffered = offerSent\<lparr>pendingIceCandidates := [''c1'']\<rparr>"
  by (simp add: model_defs state_defs)

section \<open>Initiator election\<close>

text \<open>
  Tokens with distinct random values always elect exactly one initiator, whatever the
  clocks say: the side with the greater value.
\<close>

lemma election_distinct_values:
  assumes "a \<noteq> b"
  shows "electsInitiator a ta b tb \<noteq> electsInitiator b tb' a ta'"
  using assms by (auto simp: electsInitiator_def)

text \<open>
  \<^bold>\<open>C1\<close>. With equal random values the tie is not broken by the tokens' timestamps:
  the handler compares the peer's timestamp with \<^verbatim>\<open>Date.now()\<close> read when the token is
  handled, not with the timestamp of the token it sent. \<open>alice\<close> (token 0.5, sent at 100)
  and \<open>bob\<close> (token 0.5, sent at 90) hold tokens with distinct timestamps; each handles
  the other's token at time 105, and both become receivers: no side is the initiator.
\<close>

theorem election_tie_no_initiator:
  "\<not> electsInitiator 0.5 105 0.5 90 \<and> \<not> electsInitiator 0.5 105 0.5 100
   \<and> map msg_content (published (snd aliceTie)) =
       [Metadata ''timestamp'', ElectionToken 0.5 100]
   \<and> map msg_content (published (snd bobTie)) =
       [Metadata ''timestamp'', ElectionToken 0.5 90]
   \<and> \<not> actualInitiator (fst aliceTie) \<and> \<not> isInitiator (snd aliceTie)
   \<and> \<not> actualInitiator (fst bobTie) \<and> \<not> isInitiator (snd bobTie)"
  by (simp add: model_defs state_defs obs_defs Let_def)

text \<open>
  \<^bold>\<open>C2\<close>. The fallback timer is not cancelled when the peer's token arrives, and its
  guard only asks whether the page's \<^verbatim>\<open>actualInitiator\<close> is still false and the channel
  status it holds is not \<^verbatim>\<open>open\<close>. In the scenario of the specification \<open>alice\<close> (0.7)
  is elected initiator and \<open>bob\<close> (0.3) receiver; when \<open>bob\<close>'s timer fires at 3000 ms
  with the channel not yet open, \<open>bob\<close> makes itself initiator too and publishes an offer
  of its own.
\<close>

theorem fallback_timer_second_initiator:
  "actualInitiator (fst aliceElected) \<and> isInitiator (snd aliceElected)
   \<and> \<not> actualInitiator (fst bobElected) \<and> \<not> isInitiator (snd bobElected)
   \<and> actualInitiator (fst (fallbackTimerFired (allOk 3090) bobElected))
   \<and> isInitiator (snd (fallbackTimerFired (allOk 3090) bobElected))
   \<and> map msg_type (published (snd (fallbackTimerFired (allOk 3090) bobElected))) =
       [KeepAlive, InitiatorSelection, Offer]"
  by (simp add: model_defs state_defs obs_defs Let_def)

section \<open>Reconnection\<close>




lemma tokens_update [simp]:
  "electionTokensSent (w\<lparr>participants := ps\<rparr>) = electionTokensSent w"
  "electionTokensSent (w\<lparr>sig_connected := b\<rparr>) = electionTokensSent w"
  "electionTokensSent (w\<lparr>sig_roomId := r\<rparr>) = electionTokensSent w"
  "electionTokensSent (w\<lparr>sig_userId := r\<rparr>) = electionTokensSent w"
  "electionTokensSent (w\<lparr>sig_stompClient := b\<rparr>) = electionTokensSent w"
  "electionTokensSent (w\<lparr>peerConnection := pc\<rparr>) = electionTokensSent w"
  "electionTokensSent (w\<lparr>dataChannel := dc\<rparr>) = electionTokensSent w"
  "electionTokensSent (w\<lparr>isInitiator := b\<rparr>) = electionTokensSent w"
  "electionTokensSent (w\<lparr>remoteDescriptionSet := b\<rparr>) = electionTokensSent w"
  "electionTokensSent (w\<lparr>pendingIceCandidates := cs\<rparr>) = electionTokensSent w"
  "electionTokensSent (w\<lparr>nextPc := n\<rparr>) = electionTokensSent w"
  "electionTokensSent (w\<lparr>reconnectAttempts := n\<rparr>) = electionTokensSent w"
  by (simp_all add: electionTokensSent_def published_def)







lemma isInitiator_sendSignalMessage [simp]:
  "isInitiator (sendSignalMessage ty c w) = isInitiator w"
  by (simp add: sendSignalMessage_def emit_def split: option.splits)


lemma isInitiator_sendOffer [simp]: "isInitiator (sendOffer e w) = isInitiator w"
  by (simp add: sendOffer_def emit_def split: option.splits)




lemma connect_quiet:
  assumes "\<And>m. f (Publish m) = []" "\<And>s. f (Subscribe s) = []"
    "\<And>n. f (SetTimeout KeepAliveInterval n) = []"
  shows "concat (map f (effects (snd (connect r u e w)))) = concat (map f (effects w))"
  using assms
  by (simp add: connect_def onConnect_def updateRoomParticipants_def sendKeepAlive_def
      sendSignalMessage_def emit_def split: option.splits)

lemma connect_keeps:
  "reconnectAttempts (snd (connect r u e w)) = reconnectAttempts w"
  "isSessionActive (snd (connect r u e w)) = isSessionActive w"
  by (simp_all add: connect_def onConnect_def updateRoomParticipants_def sendKeepAlive_def
      sendSignalMessage_def emit_def split: option.splits)

lemma sendOffer_quiet:
  assumes "\<And>m. f (Publish m) = []" "\<And>i d. f (SetLocalDescription i d) = []"
  shows "concat (map f (effects (sendOffer e w))) = concat (map f (effects w))"
  using assms
  by (simp add: sendOffer_def sendSignalMessage_def emit_def split: option.splits)

lemma sendOffer_keeps:
  "reconnectAttempts (sendOffer e w) = reconnectAttempts w"
  "isSessionActive (sendOffer e w) = isSessionActive w"
  by (simp_all add: sendOffer_def sendSignalMessage_def emit_def split: option.splits)

lemma createPeerConnectionAsInitiator_quiet:
  assumes "\<And>m. f (Publish m) = []" "\<And>s. f (Subscribe s) = []"
    "\<And>n. f (SetTimeout KeepAliveInterval n) = []" "\<And>i d. f (SetLocalDescription i d) = []"
    "\<And>i. f (PcClose i) = []"
  shows "concat (map f (effects (createPeerConnectionAsInitiator e w))) = concat (map f (effects w))"
    and "reconnectAttempts (createPeerConnectionAsInitiator e w) = reconnectAttempts w"
    and "isSessionActive (createPeerConnectionAsInitiator e w) = isSessionActive w"
proof -
  define w1 where "w1 = setupDataChannel (createPeerConnection
                 ((closePeerConnection w)
                    \<lparr>isInitiator := True, remoteDescriptionSet := False,
                     pendingIceCandidates := []\<rparr>))"
  have w1: "concat (map f (effects w1)) = concat (map f (effects w))"
    "reconnectAttempts w1 = reconnectAttempts w" "isSessionActive w1 = isSessionActive w"
    using assms(5)
    by (simp_all add: w1_def setupDataChannel_def createPeerConnection_def
        closePeerConnection_def emit_def split: option.splits)
  have c: "concat (map f (effects w2)) = concat (map f (effects w))
      \<and> reconnectAttempts w2 = reconnectAttempts w \<and> isSessionActive w2 = isSessionActive w"
    if "connect r n e w1 = (x, w2)" for r n x w2
    using connect_quiet [of f r n e w1, OF assms(1,2,3)] connect_keeps [of r n e w1] that w1
    by simp
  note so = sendOffer_quiet [of f e, OF assms(1,4)]
  show "concat (map f (effects (createPeerConnectionAsInitiator e w))) = concat (map f (effects w))"
    unfolding createPeerConnectionAsInitiator_def w1_def [symmetric] Let_def
    by (auto simp: w1 so c split: option.splits prod.splits promise.splits)
  show "reconnectAttempts (createPeerConnectionAsInitiator e w) = reconnectAttempts w"
    unfolding createPeerConnectionAsInitiator_def w1_def [symmetric] Let_def
    by (auto simp: w1 sendOffer_keeps c split: option.splits prod.splits promise.splits)
  show "isSessionActive (createPeerConnectionAsInitiator e w) = isSessionActive w"
    unfolding createPeerConnectionAsInitiator_def w1_def [symmetric] Let_def
    by (auto simp: w1 sendOffer_keeps c split: option.splits prod.splits promise.splits)
qed























section \<open>Buffered candidates\<close>

lemma connect_buffer:
  "pendingIceCandidates (snd (connect r u e w)) = pendingIceCandidates w"
  "remoteDescriptionSet (snd (connect r u e w)) = remoteDescriptionSet w"
  by (simp_all add: connect_def onConnect_def updateRoomParticipants_def sendKeepAlive_def
      sendSignalMessage_def emit_def split: option.splits)

lemma sendOffer_buffer:
  "pendingIceCandidates (sendOffer e w) = pendingIceCandidates w"
  "remoteDescriptionSet (sendOffer e w) = remoteDescriptionSet w"
  by (simp_all add: sendOffer_def sendSignalMessage_def emit_def split: option.splits)

lemma createPeerConnectionAsInitiator_buffer:
  shows "pendingIceCandidates (createPeerConnectionAsInitiator e w) = []"
    and "\<not> remoteDescriptionSet (createPeerConnectionAsInitiator e w)"
    and "appliedCandidates (createPeerConnectionAsInitiator e w) = appliedCandidates w"
proof -
  define w1 where "w1 = setupDataChannel (createPeerConnection
                 ((closePeerConnection w)
                    \<lparr>isInitiator := True, remoteDescriptionSet := False,
                     pendingIceCandidates := []\<rparr>))"
  have w1: "pendingIceCandidates w1 = []" "\<not> remoteDescriptionSet w1"
    by (simp_all add: w1_def setupDataChannel_def createPeerConnection_def
        closePeerConnection_def emit_def split: option.splits)
  have c: "pendingIceCandidates w2 = [] \<and> \<not> remoteDescriptionSet w2"
    if "connect r n e w1 = (x, w2)" for r n x w2
    using connect_buffer [of r n e w1] that w1 by simp
  show "pendingIceCandidates (createPeerConnectionAsInitiator e w) = []"
    unfolding createPeerConnectionAsInitiator_def w1_def [symmetric] Let_def
    by (auto simp: w1 sendOffer_buffer c split: option.splits prod.splits promise.splits)
  show "\<not> remoteDescriptionSet (createPeerConnectionAsInitiator e w)"
    unfolding createPeerConnectionAsInitiator_def w1_def [symmetric] Let_def
    by (auto simp: w1 sendOffer_buffer c split: option.splits prod.splits promise.splits)
  show "appliedCandidates (createPeerConnectionAsInitiator e w) = appliedCandidates w"
    using createPeerConnectionAsInitiator_quiet [of candidateOf e w]
    by (simp add: appliedCandidates_def)
qed

lemma cleanup_buffer:
  "pendingIceCandidates (cleanup e w) = []"
  "appliedCandidates (cleanup e w) = appliedCandidates w"
  by (auto simp: cleanup_def disconnect_def closePeerConnection_def closeDataChannel_def
      updateRoomParticipants_def emit_def appliedCandidates_def Let_def split: option.splits)

lemma createPeerConnectionAsReceiver_buffer:
  "pendingIceCandidates (createPeerConnectionAsReceiver w) = pendingIceCandidates w"
  "remoteDescriptionSet (createPeerConnectionAsReceiver w) = remoteDescriptionSet w"
  "appliedCandidates (createPeerConnectionAsReceiver w) = appliedCandidates w"
  by (simp_all add: createPeerConnectionAsReceiver_def createPeerConnection_def
      appliedCandidates_def)

lemma candidate_buffered:
  assumes "msg_type m = IceCandidate" "msg_content m = CandidateInit c" "\<not> remoteDescriptionSet w"
  shows "pendingIceCandidates (handleSignalingMessage e m w) = pendingIceCandidates w @ [c]"
    and "effects (handleSignalingMessage e m w) = effects w"
    and "\<not> remoteDescriptionSet (handleSignalingMessage e m w)"
  using assms
  by (simp_all add: handleSignalingMessage_def handleIceCandidate_def ensurePeerConnection_def
      createPeerConnectionAsReceiver_def createPeerConnection_def)

lemma candidate_applied_at_once:
  assumes "msg_type m = IceCandidate" "msg_content m = CandidateInit c" "remoteDescriptionSet w"
    "peerConnection (ensurePeerConnection w) = Some pc"
  shows "appliedCandidates (handleSignalingMessage e m w) = appliedCandidates w @ [(pc_id pc, c)]"
    and "pendingIceCandidates (handleSignalingMessage e m w) =
           (if addIceCandidateOk e then pendingIceCandidates w else pendingIceCandidates w @ [c])"
  using assms
  by (auto simp: handleSignalingMessage_def handleIceCandidate_def ensurePeerConnection_def
      createPeerConnectionAsReceiver_def createPeerConnection_def emit_def appliedCandidates_def
      split: if_splits)

lemma offer_flushes:
  assumes "msg_type m = Offer" "msg_content m = Description d" "setRemoteDescriptionOk e"
    "peerConnection (ensurePeerConnection w) = Some pc" "signalingState pc = Stable"
  shows "take (Suc (length (effects w) + length (pendingIceCandidates w)))
          (effects (handleSignalingMessage e m w)) =
        effects w @ SetRemoteDescription (pc_id pc) d
          # map (AddIceCandidate (pc_id pc)) (pendingIceCandidates w)"
    and "appliedCandidates (handleSignalingMessage e m w) =
        appliedCandidates w @ map (Pair (pc_id pc)) (pendingIceCandidates w)"
    and "pendingIceCandidates (handleSignalingMessage e m w) = []"
  using assms
  by (auto simp: model_defs obs_defs Let_def comp_def split: option.splits)

lemma answer_flushes:
  assumes "msg_type m = Answer" "msg_content m = Description d" "setRemoteDescriptionOk e"
    "peerConnection (ensurePeerConnection w) = Some pc" "signalingState pc = HaveLocalOffer"
  shows "effects (handleSignalingMessage e m w) =
        effects w @ SetRemoteDescription (pc_id pc) d
          # map (AddIceCandidate (pc_id pc)) (pendingIceCandidates w)"
    and "appliedCandidates (handleSignalingMessage e m w) =
        appliedCandidates w @ map (Pair (pc_id pc)) (pendingIceCandidates w)"
    and "pendingIceCandidates (handleSignalingMessage e m w) = []"
    and "remoteDescriptionSet (handleSignalingMessage e m w)"
  using assms
  by (auto simp: model_defs obs_defs Let_def comp_def split: option.splits)

lemma offer_reset_drops:
  assumes "msg_type m = Offer" "peerConnection w = Some pc" "signalingState pc \<noteq> Stable"
  shows "appliedCandidates (handleSignalingMessage e m w) = appliedCandidates w"
    and "pendingIceCandidates (handleSignalingMessage e m w) = []"
  using assms
  by (auto simp: model_defs obs_defs Let_def split: option.splits content.splits)

text \<open>
  \<^bold>\<open>C3\<close>. What one handler does with a candidate and with the buffer. A candidate
  handled while the flag \<^verbatim>\<open>remoteDescriptionSet\<close> is false is appended to the buffer and
  not applied. One handled while the flag is true is handed to \<^verbatim>\<open>addIceCandidate\<close> at
  once, and appended to the buffer for a retry if that is rejected. When a handler sets
  the remote description (an offer on a \<^verbatim>\<open>stable\<close> peer connection, an answer with a
  local offer pending), the candidates in the buffer at that moment are handed to
  \<^verbatim>\<open>addIceCandidate\<close> right after \<^verbatim>\<open>setRemoteDescription\<close>, each once and in buffer
  order, and the buffer is empty afterwards.

  The buffer is emptied without being applied by an offer handled on a peer connection
  that is not \<^verbatim>\<open>stable\<close>, by \<^verbatim>\<open>createPeerConnectionAsInitiator\<close> and by
  \<^verbatim>\<open>cleanup\<close>. \<^verbatim>\<open>createPeerConnectionAsReceiver\<close> keeps the buffer and also the flag,
  which can so be true on a connection that has no remote description.
\<close>

theorem pending_candidates_flushed_in_order:
  "(msg_type m = IceCandidate \<and> msg_content m = CandidateInit c \<and> \<not> remoteDescriptionSet w \<longrightarrow>
      pendingIceCandidates (handleSignalingMessage e m w) = pendingIceCandidates w @ [c]
    \<and> effects (handleSignalingMessage e m w) = effects w
    \<and> \<not> remoteDescriptionSet (handleSignalingMessage e m w))
 \<and> (msg_type m = IceCandidate \<and> msg_content m = CandidateInit c \<and> remoteDescriptionSet w
      \<and> peerConnection (ensurePeerConnection w) = Some pc \<longrightarrow>
      appliedCandidates (handleSignalingMessage e m w) = appliedCandidates w @ [(pc_id pc, c)]
    \<and> pendingIceCandidates (handleSignalingMessage e m w) =
        (if addIceCandidateOk e then pendingIceCandidates w else pendingIceCandidates w @ [c]))
 \<and> (msg_type m = Offer \<and> msg_content m = Description d \<and> setRemoteDescriptionOk e
      \<and> peerConnection (ensurePeerConnection w) = Some pc \<and> signalingState pc = Stable \<longrightarrow>
      take (Suc (length (effects w) + length (pendingIceCandidates w)))
          (effects (handleSignalingMessage e m w)) =
        effects w @ SetRemoteDescription (pc_id pc) d
          # map (AddIceCandidate (pc_id pc)) (pendingIceCandidates w)
    \<and> appliedCandidates (handleSignalingMessage e m w) =
        appliedCandidates w @ map (Pair (pc_id pc)) (pendingIceCandidates w)
    \<and> pendingIceCandidates (handleSignalingMessage e m w) = [])
 \<and> (msg_type m = Answer \<and> msg_content m = Description d \<and> setRemoteDescriptionOk e
      \<and> peerConnection (ensurePeerConnection w) = Some pc \<and> signalingState pc = HaveLocalOffer \<longrightarrow>
      effects (handleSignalingMessage e m w) =
        effects w @ SetRemoteDescription (pc_id pc) d
          # map (AddIceCandidate (pc_id pc)) (pendingIceCandidates w)
    \<and> appliedCandidates (handleSignalingMessage e m w) =
        appliedCandidates w @ map (Pair (pc_id pc)) (pendingIceCandidates w)
    \<and> pendingIceCandidates (handleSignalingMessage e m w) = []
    \<and> remoteDescriptionSet (handleSignalingMessage e m w))
 \<and> (msg_type m = Offer \<and> peerConnection w = Some pc \<and> signalingState pc \<noteq> Stable \<longrightarrow>
      appliedCandidates (handleSignalingMessage e m w) = appliedCandidates w
    \<and> pendingIceCandidates (handleSignalingMessage e m w) = [])
 \<and> pendingIceCandidates (createPeerConnectionAsInitiator e w) = []
 \<and> appliedCandidates (createPeerConnectionAsInitiator e w) = appliedCandidates w
 \<and> pendingIceCandidates (cleanup e w) = []
 \<and> appliedCandidates (cleanup e w) = appliedCandidates w
 \<and> pendingIceCandidates (createPeerConnectionAsReceiver w) = pendingIceCandidates w
 \<and> appliedCandidates (createPeerConnectionAsReceiver w) = appliedCandidates w
 \<and> remoteDescriptionSet (createPeerConnectionAsReceiver w) = remoteDescriptionSet w"
proof -
  have buffered: "msg_type m = IceCandidate \<and> msg_content m = CandidateInit c
      \<and> \<not> remoteDescriptionSet w \<longrightarrow>
      pendingIceCandidates (handleSignalingMessage e m w) = pendingIceCandidates w @ [c]
    \<and> effects (handleSignalingMessage e m w) = effects w
    \<and> \<not> remoteDescriptionSet (handleSignalingMessage e m w)"
    using candidate_buffered [of m c w e] by blast
  have at_once: "msg_type m = IceCandidate \<and> msg_content m = CandidateInit c
      \<and> remoteDescriptionSet w \<and> peerConnection (ensurePeerConnection w) = Some pc \<longrightarrow>
      appliedCandidates (handleSignalingMessage e m w) = appliedCandidates w @ [(pc_id pc, c)]
    \<and> pendingIceCandidates (handleSignalingMessage e m w) =
        (if addIceCandidateOk e then pendingIceCandidates w else pendingIceCandidates w @ [c])"
    using candidate_applied_at_once [of m c w pc e] by blast
  have by_offer: "msg_type m = Offer \<and> msg_content m = Description d \<and> setRemoteDescriptionOk e
      \<and> peerConnection (ensurePeerConnection w) = Some pc \<and> signalingState pc = Stable \<longrightarrow>
      take (Suc (length (effects w) + length (pendingIceCandidates w)))
          (effects (handleSignalingMessage e m w)) =
        effects w @ SetRemoteDescription (pc_id pc) d
          # map (AddIceCandidate (pc_id pc)) (pendingIceCandidates w)
    \<and> appliedCandidates (handleSignalingMessage e m w) =
        appliedCandidates w @ map (Pair (pc_id pc)) (pendingIceCandidates w)
    \<and> pendingIceCandidates (handleSignalingMessage e m w) = []"
    using offer_flushes [of m d e w pc] by blast
  have by_answer: "msg_type m = Answer \<and> msg_content m = Description d \<and> setRemoteDescriptionOk e
      \<and> peerConnection (ensurePeerConnection w) = Some pc \<and> signalingState pc = HaveLocalOffer \<longrightarrow>
      effects (handleSignalingMessage e m w) =
        effects w @ SetRemoteDescription (pc_id pc) d
          # map (AddIceCandidate (pc_id pc)) (pendingIceCandidates w)
    \<and> appliedCandidates (handleSignalingMessage e m w) =
        appliedCandidates w @ map (Pair (pc_id pc)) (pendingIceCandidates w)
    \<and> pendingIceCandidates (handleSignalingMessage e m w) = []
    \<and> remoteDescriptionSet (handleSignalingMessage e m w)"
    using answer_flushes [of m d e w pc] by blast
  have reset: "msg_type m = Offer \<and> peerConnection w = Some pc \<and> signalingState pc \<noteq> Stable \<longrightarrow>
      appliedCandidates (handleSignalingMessage e m w) = appliedCandidates w
    \<and> pendingIceCandidates (handleSignalingMessage e m w) = []"
    using offer_reset_drops [of m w pc e] by blast
  note dropped = createPeerConnectionAsInitiator_buffer(1,3) [of e w] cleanup_buffer [of e w]
  note kept = createPeerConnectionAsReceiver_buffer [of w]
  from buffered at_once by_offer by_answer reset dropped kept show ?thesis
    by blast
qed

theorem pending_candidates_flushed_in_order_witness:
  "pendingIceCandidates candidateBuffered = [''c1''] \<and> \<not> remoteDescriptionSet candidateBuffered
   \<and> peerConnection candidateBuffered = Some \<lparr>pc_id = 0, signalingState = HaveLocalOffer\<rparr>
   \<and> pendingIceCandidates (handleSignalingMessage (allOk 2)
        (envelope IceCandidate (CandidateInit ''c2'') ''alice'') candidateBuffered) = [''c1'', ''c2'']
   \<and> effects (handleSignalingMessage (allOk 3)
        (envelope Answer (Description ''their-answer'') ''alice'')
        (candidateBuffered\<lparr>pendingIceCandidates := [''c1'', ''c2'']\<rparr>)) =
       [SetRemoteDescription 0 ''their-answer'', AddIceCandidate 0 ''c1'', AddIceCandidate 0 ''c2'']
   \<and> pendingIceCandidates (handleSignalingMessage (allOk 3)
        (envelope Answer (Description ''their-answer'') ''alice'')
        (candidateBuffered\<lparr>pendingIceCandidates := [''c1'', ''c2'']\<rparr>)) = []
   \<and> appliedCandidates (handleSignalingMessage (allOk 3)
        (envelope Offer (Description ''their-offer'') ''alice'')
        (initialWorld\<lparr>pendingIceCandidates := [''c1'', ''c2'']\<rparr>)) = [(0, ''c1''), (0, ''c2'')]
   \<and> pendingIceCandidates (handleSignalingMessage (allOk 3)
        (envelope Offer (Description ''their-offer'') ''alice'')
        (initialWorld\<lparr>pendingIceCandidates := [''c1'', ''c2'']\<rparr>)) = []
   \<and> appliedCandidates (handleSignalingMessage (allOk 3)
        (envelope Offer (Description ''their-offer'') ''alice'') candidateBuffered) = []
   \<and> pendingIceCandidates (handleSignalingMessage (allOk 3)
        (envelope Offer (Description ''their-offer'') ''alice'') candidateBuffered) = []
   \<and> remoteDescriptionSet bobReconnected
   \<and> peerConnection bobReconnected = Some \<lparr>pc_id = 2, signalingState = Stable\<rparr>
   \<and> appliedCandidates bobReconnected = []
   \<and> appliedCandidates candidateRejected = [(2, ''c9'')]
   \<and> pendingIceCandidates candidateRejected = [''c9'']
   \<and> pendingIceCandidates (createPeerConnectionAsInitiator (allOk 3) candidateBuffered) = []
   \<and> pendingIceCandidates (cleanup (allOk 3) candidateBuffered) = []
   \<and> remoteDescriptionSet (createPeerConnectionAsReceiver bobAnswered)"
proof -
  note cb = candidateBuffered_eq
  have e: "peerConnection (ensurePeerConnection (initialWorld\<lparr>pendingIceCandidates := [''c1'', ''c2'']\<rparr>))
        = Some \<lparr>pc_id = 0, signalingState = Stable\<rparr>"
    by (simp add: model_defs state_defs)
  have b: "remoteDescriptionSet bobAnswered"
    by (simp add: bobAnswered_def model_defs state_defs Let_def)
  have r: "remoteDescriptionSet bobReconnected"
    "peerConnection bobReconnected = Some \<lparr>pc_id = 2, signalingState = Stable\<rparr>"
    "appliedCandidates bobReconnected = []" "pendingIceCandidates bobReconnected = []"
    by (simp_all add: bobReconnected_def bobAnswered_def model_defs state_defs obs_defs Let_def)
  have er: "peerConnection (ensurePeerConnection bobReconnected) =
      Some \<lparr>pc_id = 2, signalingState = Stable\<rparr>"
    by (simp add: ensurePeerConnection_def r)
  show ?thesis
    using pending_candidates_flushed_in_order [where
        m = "envelope IceCandidate (CandidateInit ''c2'') ''alice''" and c = "''c2''"
        and w = candidateBuffered and e = "allOk 2"]
      pending_candidates_flushed_in_order [where
        m = "envelope Answer (Description ''their-answer'') ''alice''"
        and w = "candidateBuffered\<lparr>pendingIceCandidates := [''c1'', ''c2'']\<rparr>" and e = "allOk 3"
        and d = "''their-answer''" and pc = "\<lparr>pc_id = 0, signalingState = HaveLocalOffer\<rparr>"]
      pending_candidates_flushed_in_order [where
        m = "envelope Offer (Description ''their-offer'') ''alice''"
        and w = "initialWorld\<lparr>pendingIceCandidates := [''c1'', ''c2'']\<rparr>" and e = "allOk 3"
        and d = "''their-offer''" and pc = "\<lparr>pc_id = 0, signalingState = Stable\<rparr>"]
      pending_candidates_flushed_in_order [where
        m = "envelope Offer (Description ''their-offer'') ''alice''"
        and w = candidateBuffered and e = "allOk 3"
        and pc = "\<lparr>pc_id = 0, signalingState = HaveLocalOffer\<rparr>"]
      pending_candidates_flushed_in_order [where
        m = "envelope IceCandidate (CandidateInit ''c9'') ''alice''" and c = "''c9''"
        and w = bobReconnected and e = "rejecting 1300"
        and pc = "\<lparr>pc_id = 2, signalingState = Stable\<rparr>"]
      pending_candidates_flushed_in_order [where w = bobAnswered]
      e er r b
    by (simp add: cb candidateRejected_def rejecting_def envelope_def offerSent_def
        initialWorld_def allOk_def ensurePeerConnection_def appliedCandidates_def)
qed

text \<open>
  Three runs in which a buffered candidate is lost or applied twice. An offer arrives
  while a local offer is
  pending: the connection is reset and the buffered \<open>c1\<close> is never applied although
  the remote description is set. The initiator reconnects with \<open>c1\<close> buffered: the
  buffer is emptied, and the answer that then sets the remote description flushes
  nothing. And \<open>bob\<close>, whose flag is still true after he re-created his connection, hands
  \<open>c9\<close> to \<^verbatim>\<open>addIceCandidate\<close> at once; the browser rejects it, it is buffered, and the
  next offer hands it over a second time.
\<close>

theorem buffered_candidate_lost_counterexample:
  "pendingIceCandidates offerSent = [] \<and> \<not> remoteDescriptionSet offerSent
   \<and> pendingIceCandidates candidateBuffered = [''c1'']
   \<and> remoteDescriptionSet (handleSignalingMessage (allOk 2)
        (envelope Offer (Description ''their-offer'') ''alice'') candidateBuffered)
   \<and> appliedCandidates (handleSignalingMessage (allOk 2)
        (envelope Offer (Description ''their-offer'') ''alice'') candidateBuffered) = []
   \<and> pendingIceCandidates (handleSignalingMessage (allOk 2)
        (envelope Offer (Description ''their-offer'') ''alice'') candidateBuffered) = []
   \<and> pendingIceCandidates initiatorReconnected = []
   \<and> remoteDescriptionSet (handleSignalingMessage (allOk 1400)
        (envelope Answer (Description ''their-answer'') ''alice'') initiatorReconnected)
   \<and> appliedCandidates (handleSignalingMessage (allOk 1400)
        (envelope Answer (Description ''their-answer'') ''alice'') initiatorReconnected) = []
   \<and> remoteDescriptionSet bobReconnected
   \<and> peerConnection bobReconnected = Some \<lparr>pc_id = 2, signalingState = Stable\<rparr>
   \<and> appliedCandidates bobReconnected = []
   \<and> appliedCandidates candidateRejected = [(2, ''c9'')]
   \<and> pendingIceCandidates candidateRejected = [''c9'']
   \<and> appliedCandidates (handleSignalingMessage (allOk 1400)
        (envelope Offer (Description ''offer-again'') ''alice'') candidateRejected) =
       [(2, ''c9''), (2, ''c9'')]"
proof -
  have first: "pendingIceCandidates offerSent = [] \<and> \<not> remoteDescriptionSet offerSent
   \<and> pendingIceCandidates candidateBuffered = [''c1'']
   \<and> remoteDescriptionSet (handleSignalingMessage (allOk 2)
        (envelope Offer (Description ''their-offer'') ''alice'') candidateBuffered)
   \<and> appliedCandidates (handleSignalingMessage (allOk 2)
        (envelope Offer (Description ''their-offer'') ''alice'') candidateBuffered) = []
   \<and> pendingIceCandidates (handleSignalingMessage (allOk 2)
        (envelope Offer (Description ''their-offer'') ''alice'') candidateBuffered) = []"
    by (simp add: model_defs state_defs obs_defs)
  have second: "pendingIceCandidates initiatorReconnected = []
   \<and> remoteDescriptionSet (handleSignalingMessage (allOk 1400)
        (envelope Answer (Description ''their-answer'') ''alice'') initiatorReconnected)
   \<and> appliedCandidates (handleSignalingMessage (allOk 1400)
        (envelope Answer (Description ''their-answer'') ''alice'') initiatorReconnected) = []"
    by (simp add: initiatorReconnected_def model_defs state_defs obs_defs Let_def)
  have third: "remoteDescriptionSet bobReconnected
   \<and> peerConnection bobReconnected = Some \<lparr>pc_id = 2, signalingState = Stable\<rparr>
   \<and> appliedCandidates bobReconnected = []
   \<and> appliedCandidates candidateRejected = [(2, ''c9'')]
   \<and> pendingIceCandidates candidateRejected = [''c9'']
   \<and> appliedCandidates (handleSignalingMessage (allOk 1400)
        (envelope Offer (Description ''offer-again'') ''alice'') candidateRejected) =
       [(2, ''c9''), (2, ''c9'')]"
    by (simp add: candidateRejected_def rejecting_def bobReconnected_def bobAnswered_def
        model_defs state_defs obs_defs Let_def)
  from first second third show ?thesis by simp
qed

section \<open>Ending the session\<close>

text \<open>
  \<^bold>\<open>C5\<close>. An \<^verbatim>\<open>end-session\<close> envelope from another sender is handed to the registered
  handler. Whether or not the session is still active, the handler removes the messages
  stored for the current room, the room's membership entry and the session record, and
  reports the session end with \<^verbatim>\<open>endedByPeer = true\<close>, once. The cleanup that follows
  records the local participant's leave when the relay client was connected, so the
  membership entry of the room is afterwards either absent or the empty one (count 0, no
  users).
\<close>

theorem peer_end_session_clears_room:
  assumes "msg_type m = EndSession" "Some (msg_senderId m) \<noteq> sig_userId w"
    "sig_messageCallback w = Some cb" "rtc_roomId w = Some r" "r \<noteq> []"
  shows "fst (onStompMessage e m (p, w)) = p
       \<and> messages (snd (onStompMessage e m (p, w))) r = None
       \<and> (participants (snd (onStompMessage e m (p, w))) r = None
          \<or> participants (snd (onStompMessage e m (p, w))) r =
              Some \<lparr>count = 0, users = [], lastUpdated = now e\<rparr>)
       \<and> session (snd (onStompMessage e m (p, w))) = None
       \<and> sessionEndReports (snd (onStompMessage e m (p, w))) = sessionEndReports w @ [True]
       \<and> \<not> isSessionActive (snd (onStompMessage e m (p, w)))"
  using assms
  by (cases cb) (auto simp: model_defs obs_defs Let_def split: option.splits)

theorem peer_end_session_clears_room_witness:
  "msg_type endSessionEnvelope = EndSession
   \<and> Some (msg_senderId endSessionEnvelope) \<noteq> sig_userId offerSent
   \<and> rtc_roomId offerSent = Some ''r1''
   \<and> messages endedByPeer ''r1'' = None
   \<and> participants endedByPeer ''r1'' = Some \<lparr>count = 0, users = [], lastUpdated = 200\<rparr>
   \<and> session endedByPeer = None
   \<and> sessionEndReports endedByPeer = [True]
   \<and> \<not> isSessionActive endedByPeer"
  using peer_end_session_clears_room [of endSessionEnvelope offerSent PageHandler "''r1''"
      "allOk 200" page0]
  by (simp add: model_defs state_defs obs_defs)

text \<open>
  The handler has no check of \<^verbatim>\<open>isSessionActive\<close>: a second \<^verbatim>\<open>end-session\<close> envelope,
  received when the session is already inactive, is forwarded and reports the session
  end again.
\<close>

theorem end_session_when_inactive_counterexample:
  "\<not> isSessionActive endedByPeer
   \<and> sessionEndReports endedByPeer = [True]
   \<and> forwards endSessionEnvelope endedByPeer
   \<and> sessionEndReports (snd (onStompMessage (allOk 201) endSessionEnvelope (page0, endedByPeer)))
       = [True, True]"
  by (simp add: model_defs state_defs obs_defs)

section \<open>Envelopes of one's own\<close>

text \<open>
  \<^bold>\<open>C6\<close>. An envelope received on the room subscription whose \<^verbatim>\<open>senderId\<close> is the
  local \<^verbatim>\<open>userId\<close> is not handed to the registered handler and changes nothing, unless
  its type is \<^verbatim>\<open>room-full\<close>.
\<close>

theorem own_envelopes_not_delivered:
  assumes "Some (msg_senderId m) = sig_userId w" "msg_type m \<noteq> RoomFull"
  shows "\<not> forwards m w \<and> onStompMessage e m (p, w) = (p, w)"
  using assms by (simp add: onStompMessage_def forwards_def)

theorem own_envelopes_not_delivered_witness:
  "Some (msg_senderId (envelope Offer (Description ''offer-sdp'') ''bob'')) = sig_userId offerSent
   \<and> \<not> forwards (envelope Offer (Description ''offer-sdp'') ''bob'') offerSent
   \<and> onStompMessage (allOk 0) (envelope Offer (Description ''offer-sdp'') ''bob'') (page0, offerSent)
       = (page0, offerSent)"
  using own_envelopes_not_delivered [of "envelope Offer (Description ''offer-sdp'') ''bob''" offerSent
      "allOk 0" page0]
  by (simp add: envelope_def offerSent_def initialWorld_def)

text \<open>
  A \<^verbatim>\<open>room-full\<close> envelope is handed on before the sender is looked at: the tab
  receives its own notice and reports \<^verbatim>\<open>onRoomFull\<close>.
\<close>

theorem own_room_full_delivered_counterexample:
  "Some (msg_senderId (envelope RoomFull (Metadata ''full'') ''bob'')) = sig_userId offerSent
   \<and> forwards (envelope RoomFull (Metadata ''full'') ''bob'') offerSent
   \<and> effects (snd (onStompMessage (allOk 0) (envelope RoomFull (Metadata ''full'') ''bob'')
        (page0, offerSent))) = [OnRoomFull]"
  by (simp add: model_defs state_defs)

section \<open>A full room\<close>

lemma joinOrLeave_again:
  "joinOrLeave u True (joinOrLeave u True p\<lparr>lastUpdated := t\<rparr>) = joinOrLeave u True p\<lparr>lastUpdated := t\<rparr>"
  by (simp add: joinOrLeave_def)

lemma connect_room_full:
  assumes "\<not> sig_connected w" "connectOk e" "roomId \<noteq> []" "userId \<noteq> []"
    "count (joinOrLeave userId True (storedParticipants roomId (now e) w)) > 2"
  shows "fst (connect roomId userId e w) = Resolved"
    and "published (snd (connect roomId userId e w)) =
           published w @
             [\<lparr>msg_type = RoomFull,
               msg_content = Metadata ''Room is already full with 2 participants'',
               msg_roomId = roomId, msg_senderId = userId\<rparr>]"
    and "isConnected (snd (connect roomId userId e w))"
    and "sig_userId (snd (connect roomId userId e w)) = Some userId"
    and "nextPc (snd (connect roomId userId e w)) = nextPc w"
  using assms
  by (simp_all add: connect_def onConnect_def updateRoomParticipants_def storedParticipants_def
      sendSignalMessage_def truthy_def isConnected_def emit_def published_def)
lemma cleanup_relay:
  "sig_connected (cleanup e w) = (sig_connected w \<and> \<not> sig_stompClient w)"
  "published (cleanup e w) = published w"
  "nextPc (cleanup e w) = nextPc w"
  by (auto simp: cleanup_def disconnect_def closePeerConnection_def closeDataChannel_def
      updateRoomParticipants_def emit_def published_def Let_def split: option.splits)

lemma published_notified:
  "effects v = effects w @ map OnMessageReceived ms \<Longrightarrow> published v = published w"
  by (simp add: published_def comp_def)

lemma beforeConnect_effects:
  "effects (beforeConnect roomId nick e w) =
     effects (cleanup e (w\<lparr>rtc_roomId := Some roomId, nickname := Some nick,
                           isSessionActive := True\<rparr>))
     @ map OnMessageReceived (storedMessages (beforeConnect roomId nick e w))"
  by (simp add: beforeConnect_def Let_def saveSession_def updateRoomParticipants_def
      loadStoredMessages_def split: option.splits)

lemma beforeConnect_disconnected:
  assumes "sig_connected w \<longrightarrow> sig_stompClient w"
  shows "\<not> sig_connected (beforeConnect roomId nick e w)"
    and "published (beforeConnect roomId nick e w) = published w"
    and "nextPc (beforeConnect roomId nick e w) = nextPc w"
proof -
  show "\<not> sig_connected (beforeConnect roomId nick e w)"
    using assms
    by (simp add: beforeConnect_def Let_def saveSession_def updateRoomParticipants_def
        loadStoredMessages_def cleanup_relay split: option.splits)
  show "nextPc (beforeConnect roomId nick e w) = nextPc w"
    by (simp add: beforeConnect_def Let_def saveSession_def updateRoomParticipants_def
        loadStoredMessages_def cleanup_relay split: option.splits)
  have "effects (beforeConnect roomId nick e w) =
     effects (cleanup e (w\<lparr>rtc_roomId := Some roomId, nickname := Some nick,
                           isSessionActive := True\<rparr>))
     @ map OnMessageReceived (storedMessages (beforeConnect roomId nick e w))"
    by (rule beforeConnect_effects)
  then have "published (beforeConnect roomId nick e w) =
     published (cleanup e (w\<lparr>rtc_roomId := Some roomId, nickname := Some nick,
                           isSessionActive := True\<rparr>))"
    by (rule published_notified)
  also have "\<dots> = published w"
    by (simp add: cleanup_relay) (simp add: published_def)
  finally show "published (beforeConnect roomId nick e w) = published w" .
qed

text \<open>
  \<^bold>\<open>C7\<close>. When the join recorded by the connect flow yields a count greater than 2,
  \<^verbatim>\<open>initialize\<close> publishes a \<^verbatim>\<open>room-full\<close> envelope to the room and still completes the
  relay connection: the promise resolves, the client stays connected, and the notice,
  although the tab's own, is handed to its handler. Nothing keeps the tab from
  negotiating: \<^verbatim>\<open>initialize\<close> goes on to create the receiver peer connection and to
  register the signalling handler, as for a tab within capacity.
\<close>

theorem room_full_broadcast:
  assumes "sig_connected w \<longrightarrow> sig_stompClient w" "connectOk e" "roomId \<noteq> []" "nick \<noteq> []"
    "count (joinOrLeave nick True
              (storedParticipants roomId (now e) (beforeConnect roomId nick e w))) > 2"
  shows "fst (initialize roomId nick e w) = Resolved
       \<and> published (snd (initialize roomId nick e w)) =
           published w @
             [\<lparr>msg_type = RoomFull,
               msg_content = Metadata ''Room is already full with 2 participants'',
               msg_roomId = roomId, msg_senderId = nick\<rparr>]
       \<and> isConnected (snd (initialize roomId nick e w))
       \<and> sig_messageCallback (snd (initialize roomId nick e w)) = Some RtcHandler
       \<and> forwards \<lparr>msg_type = RoomFull,
               msg_content = Metadata ''Room is already full with 2 participants'',
               msg_roomId = roomId, msg_senderId = nick\<rparr> (snd (initialize roomId nick e w))
       \<and> peerConnection (snd (initialize roomId nick e w)) =
           Some \<lparr>pc_id = nextPc w, signalingState = Stable\<rparr>"
proof -
  let ?b = "beforeConnect roomId nick e w"
  note b = beforeConnect_disconnected [OF assms(1), of roomId nick e]
  note c = connect_room_full [OF b(1) assms(2,3,4,5)]
  obtain w6 where w6: "connect roomId nick e ?b = (Resolved, w6)"
    using c(1) by (cases "connect roomId nick e ?b") auto
  have i: "initialize roomId nick e w =
      (Resolved, onSignalMessage RtcHandler (createPeerConnectionAsReceiver w6))"
    by (simp add: initialize_def w6)
  from c w6 b show ?thesis
    by (simp add: i onSignalMessage_def createPeerConnectionAsReceiver_def
        createPeerConnection_def published_def forwards_def isConnected_def)
qed

theorem room_full_broadcast_witness:
  "count (joinOrLeave ''carol'' True
            (storedParticipants ''r1'' 100 (beforeConnect ''r1'' ''carol'' (allOk 100) roomOfTwo))) = 3
   \<and> fst (initialize ''r1'' ''carol'' (allOk 100) roomOfTwo) = Resolved
   \<and> published (snd (initialize ''r1'' ''carol'' (allOk 100) roomOfTwo)) =
       [\<lparr>msg_type = RoomFull,
         msg_content = Metadata ''Room is already full with 2 participants'',
         msg_roomId = ''r1'', msg_senderId = ''carol''\<rparr>]
   \<and> peerConnection (snd (initialize ''r1'' ''carol'' (allOk 100) roomOfTwo)) =
       Some \<lparr>pc_id = 0, signalingState = Stable\<rparr>"
proof -
  have cnt: "count (joinOrLeave ''carol'' True
            (storedParticipants ''r1'' 100 (beforeConnect ''r1'' ''carol'' (allOk 100) roomOfTwo))) = 3"
    by (simp add: beforeConnect_def model_defs state_defs Let_def)
  show ?thesis
    using room_full_broadcast [of roomOfTwo "allOk 100" "''r1''" "''carol''"] cnt
    by (simp add: roomOfTwo_def initialWorld_def allOk_def published_def)
qed

text \<open>
  The third participant does enter negotiation: \<open>carol\<close> publishes the notice, then
  her election token, and on \<open>alice\<close>'s token she is elected initiator and publishes an
  offer.
\<close>

theorem over_capacity_negotiates_counterexample:
  "map msg_type (published (snd carolJoined)) = [RoomFull, InitiatorSelection]
   \<and> map msg_type (published (snd carolElected)) = [RoomFull, InitiatorSelection, Offer]
   \<and> isInitiator (snd carolElected)
   \<and> peerConnection (snd carolElected) = Some \<lparr>pc_id = 1, signalingState = HaveLocalOffer\<rparr>"
  by (simp add: model_defs state_defs obs_defs Let_def)

section \<open>Offers and answers out of turn\<close>

text \<open>
  \<^bold>\<open>C8\<close>. An offer received while the peer connection is not \<^verbatim>\<open>stable\<close> resets the
  connection: the current instance is closed and a new one created (as receiver), the
  buffered candidates are dropped without being applied, and the flag
  \<^verbatim>\<open>remoteDescriptionSet\<close> afterwards depends on the processing of this offer alone. The
  offer is then processed on the new instance: when the browser accepts the description
  and makes the answer, and the relay client is connected, the remote description is set
  on the new instance, the answer is applied locally and published.
\<close>

theorem offer_mid_negotiation_resets:
  assumes "msg_type m = Offer" "msg_content m = Description d"
    "peerConnection w = Some pc" "signalingState pc \<noteq> Stable"
  shows "nextPc (handleSignalingMessage e m w) = nextPc w + 1
       \<and> map_option pc_id (peerConnection (handleSignalingMessage e m w)) = Some (nextPc w)
       \<and> \<not> isInitiator (handleSignalingMessage e m w)
       \<and> pendingIceCandidates (handleSignalingMessage e m w) = []
       \<and> appliedCandidates (handleSignalingMessage e m w) = appliedCandidates w
       \<and> take (Suc (length (effects w))) (effects (handleSignalingMessage e m w)) =
           effects w @ [PcClose (pc_id pc)]
       \<and> remoteDescriptionSet (handleSignalingMessage e m w) =
           (setRemoteDescriptionOk e \<and> createAnswer e \<noteq> None \<and> setLocalDescriptionOk e)
       \<and> (setRemoteDescriptionOk e \<longrightarrow>
           take (Suc (Suc (length (effects w)))) (effects (handleSignalingMessage e m w)) =
             effects w @ [PcClose (pc_id pc), SetRemoteDescription (nextPc w) d])
       \<and> (setRemoteDescriptionOk e \<and> createAnswer e = Some a \<and> setLocalDescriptionOk e
            \<and> sig_connected w \<and> sig_stompClient w
            \<and> sig_roomId w = Some r \<and> r \<noteq> [] \<and> sig_userId w = Some u \<and> u \<noteq> [] \<longrightarrow>
           effects (handleSignalingMessage e m w) =
             effects w @ [PcClose (pc_id pc), SetRemoteDescription (nextPc w) d,
               SetLocalDescription (nextPc w) a,
               Publish \<lparr>msg_type = Answer, msg_content = Description a, msg_roomId = r,
                 msg_senderId = u\<rparr>]
           \<and> peerConnection (handleSignalingMessage e m w) =
               Some \<lparr>pc_id = nextPc w, signalingState = Stable\<rparr>)"
  using assms
  by (auto simp: model_defs obs_defs Let_def split: option.splits)

theorem offer_mid_negotiation_resets_witness:
  "msg_type (envelope Offer (Description ''their-offer'') ''alice'') = Offer
   \<and> peerConnection candidateBuffered = Some \<lparr>pc_id = 0, signalingState = HaveLocalOffer\<rparr>
   \<and> pendingIceCandidates candidateBuffered = [''c1'']
   \<and> pendingIceCandidates (handleSignalingMessage (allOk 2)
        (envelope Offer (Description ''their-offer'') ''alice'') candidateBuffered) = []
   \<and> effects (handleSignalingMessage (allOk 2)
        (envelope Offer (Description ''their-offer'') ''alice'') candidateBuffered) =
       [PcClose 0, SetRemoteDescription 1 ''their-offer'', SetLocalDescription 1 ''answer-sdp'',
        Publish \<lparr>msg_type = Answer, msg_content = Description ''answer-sdp'',
          msg_roomId = ''r1'', msg_senderId = ''bob''\<rparr>]
   \<and> peerConnection (handleSignalingMessage (allOk 2)
        (envelope Offer (Description ''their-offer'') ''alice'') candidateBuffered) =
       Some \<lparr>pc_id = 1, signalingState = Stable\<rparr>
   \<and> remoteDescriptionSet (handleSignalingMessage (allOk 2)
        (envelope Offer (Description ''their-offer'') ''alice'') candidateBuffered)"
proof -
  note cb = candidateBuffered_eq
  show ?thesis
    using offer_mid_negotiation_resets [of "envelope Offer (Description ''their-offer'') ''alice''"
      "''their-offer''" candidateBuffered "\<lparr>pc_id = 0, signalingState = HaveLocalOffer\<rparr>"
      "allOk 2" "''answer-sdp''" "''r1''" "''bob''"]
    by (simp add: cb envelope_def offerSent_def initialWorld_def allOk_def)
qed

text \<open>
  \<^bold>\<open>C9\<close>. An answer received while a peer connection exists whose
  \<^verbatim>\<open>signalingState\<close> is not \<^verbatim>\<open>have-local-offer\<close> is ignored: the whole state, the log
  included, is as before.
\<close>

theorem answer_ignored_without_local_offer:
  assumes "msg_type m = Answer" "peerConnection w = Some pc"
    "signalingState pc \<noteq> HaveLocalOffer"
  shows "handleSignalingMessage e m w = w"
  using assms by (simp add: handleSignalingMessage_def ensurePeerConnection_def handleAnswer_def)

theorem answer_ignored_without_local_offer_witness:
  "peerConnection (ensurePeerConnection initialWorld) = Some \<lparr>pc_id = 0, signalingState = Stable\<rparr>
   \<and> handleSignalingMessage (allOk 0) (envelope Answer (Description ''answer-sdp'') ''alice'')
        (ensurePeerConnection initialWorld) = ensurePeerConnection initialWorld"
  using answer_ignored_without_local_offer [of "envelope Answer (Description ''answer-sdp'') ''alice''"
      "ensurePeerConnection initialWorld" "\<lparr>pc_id = 0, signalingState = Stable\<rparr>" "allOk 0"]
  by (simp add: envelope_def initialWorld_def ensurePeerConnection_def
      createPeerConnectionAsReceiver_def createPeerConnection_def)

text \<open>
  While no peer connection exists (here: between a disconnection and the reconnection
  timer), the handler first creates one as receiver: the answer is still not applied,
  but the connection instance and the role have changed.
\<close>

theorem answer_without_connection_counterexample:
  "peerConnection reconnecting = None \<and> isInitiator reconnecting
   \<and> peerConnection (handleSignalingMessage (allOk 0)
        (envelope Answer (Description ''answer-sdp'') ''alice'') reconnecting)
       = Some \<lparr>pc_id = 1, signalingState = Stable\<rparr>
   \<and> \<not> isInitiator (handleSignalingMessage (allOk 0)
        (envelope Answer (Description ''answer-sdp'') ''alice'') reconnecting)"
  by (simp add: model_defs state_defs)

section \<open>Sending while the channel is not open\<close>

text \<open>
  The guard is not all of \<^verbatim>\<open>sendMessage\<close>: on an open channel the message is sent,
  stored, persisted and reported back as the sender's own.
\<close>

lemma sendMessage_open:
  assumes "dataChannel w = Some dc" "readyState dc = DcOpen" "sendOk e" "rtc_roomId w = Some r"
    "r \<noteq> []"
  shows "effects (sendMessage message e w) =
           effects w @ [DataChannelSend message (senderName w) (now e),
             OnMessageReceived \<lparr>me_data = message, me_senderId = senderName w,
               me_isSelf = True, me_timestamp = now e\<rparr>]"
    and "messages (sendMessage message e w) r =
           Some (storedMessages w @ [\<lparr>me_data = message, me_senderId = senderName w,
             me_isSelf = True, me_timestamp = now e\<rparr>])"
  using assms
  by (simp_all add: sendMessage_def emit_def persistMessages_def saveMessages_def)

text \<open>
  \<^bold>\<open>C10\<close>. Calling \<^verbatim>\<open>sendMessage\<close> while there is no data channel, or while its
  \<^verbatim>\<open>readyState\<close> is not \<^verbatim>\<open>open\<close>, leaves the whole state as it was: nothing is added
  to the log (so nothing is sent and no callback runs), and the stored messages and
  \<^verbatim>\<open>localStorage\<close> are unchanged.
\<close>

theorem sendMessage_not_open_noop:
  assumes "dataChannel w = None \<or> (\<exists>dc. dataChannel w = Some dc \<and> readyState dc \<noteq> DcOpen)"
  shows "sendMessage message e w = w"
  using assms by (auto simp: sendMessage_def)

theorem sendMessage_not_open_noop_witness:
  "dataChannel offerSent = Some \<lparr>readyState = DcConnecting\<rparr>
   \<and> sendMessage ''hello'' (allOk 7) offerSent = offerSent
   \<and> dataChannel initialWorld = None
   \<and> sendMessage ''hello'' (allOk 7) initialWorld = initialWorld"
  using sendMessage_not_open_noop [of offerSent "''hello''" "allOk 7"]
    sendMessage_not_open_noop [of initialWorld "''hello''" "allOk 7"]
  by (simp add: offerSent_def initialWorld_def)

end
